theory Spec2Isabelle
  imports Complex_Main "HOL-Library.Sublist"
begin

section \<open>Version keys: \<open>MaterialTools._getVersionNumber\<close>\<close>

text \<open>
  Strings are lists of 8-bit characters. JavaScript numbers are modelled by rationals:
  every key computed below is a sum of an integer below 1000 and a quotient by 100 or
  1000, and the comparisons the code makes between such keys come out the same on
  IEEE doubles (in particular \<open>100 / 100\<close> is exactly \<open>1\<close> there).
\<close>

datatype error =
    Error string      \<comment> \<open>\<open>throw new Error(msg)\<close>, or a rejection with a message\<close>
  | TypeError         \<comment> \<open>a property read on \<open>null\<close> or \<open>undefined\<close>\<close>

definition isDigit :: "char \<Rightarrow> bool" where
  "isDigit c = (48 \<le> (of_char c :: nat) \<and> (of_char c :: nat) \<le> 57)"

definition digitVal :: "char \<Rightarrow> nat" where
  "digitVal c = of_char c - 48"

definition digitChar :: "nat \<Rightarrow> char" where
  "digitChar d = char_of (48 + d)"

text \<open>The regular expression's \<open>.\<close>: any character but a line terminator.\<close>

definition isLineTerminator :: "char \<Rightarrow> bool" where
  "isLineTerminator c = ((of_char c :: nat) = 10 \<or> (of_char c :: nat) = 13)"

text \<open>
  \<open>(?:-rc(?:.|-)([0-9]+))?\<close> applied right after the third digit. The result is the
  fourth capture: \<open>None\<close> when the optional group does not take part in the match.
  \<open>[0-9]+\<close> is greedy and nothing follows it, so it takes the longest run of digits.
\<close>

definition rcGroup :: "string \<Rightarrow> string option" where
  "rcGroup s =
     (if take 3 s = ''-rc'' \<and> 3 < length s
         \<and> (\<not> isLineTerminator (s ! 3) \<or> s ! 3 = CHR ''-'')
         \<and> takeWhile isDigit (drop 4 s) \<noteq> []
      then Some (takeWhile isDigit (drop 4 s))
      else None)"

text \<open>
  \<open>([0-9])\.([0-9])\.([0-9])\<close> followed by the optional group, anchored at the head of
  the list. The result holds the captures: the three digits and the fourth capture.
\<close>

fun matchHere :: "string \<Rightarrow> (string list \<times> string option) option" where
  "matchHere (a # p # b # q # c # rest) =
     (if isDigit a \<and> p = CHR ''.'' \<and> isDigit b \<and> q = CHR ''.'' \<and> isDigit c
      then Some ([[a], [b], [c]], rcGroup rest)
      else None)"
| "matchHere _ = None"

text \<open>
  \<open>version.match(this.versionDigitRegex)\<close>: the expression has no anchor, so the
  leftmost position where it matches wins; \<open>None\<close> is JavaScript's \<open>null\<close>.
\<close>

fun versionDigitRegex :: "string \<Rightarrow> (string list \<times> string option) option" where
  "versionDigitRegex [] = None"
| "versionDigitRegex (c # cs) =
     (case matchHere (c # cs) of
        Some m \<Rightarrow> Some m
      | None \<Rightarrow> versionDigitRegex cs)"

text \<open>
  \<open>parseInt\<close> on the two kinds of argument the code passes: \<open>undefined\<close> (here
  \<open>None\<close>), which gives \<open>NaN\<close> (here \<open>None\<close>), and a string that starts with decimal
  digits. The result is exact here; JavaScript rounds above \<open>2 ^ 53\<close>.
\<close>

definition decimal :: "string \<Rightarrow> nat" where
  "decimal s = foldl (\<lambda>n c. 10 * n + digitVal c) 0 s"

fun parseInt :: "string option \<Rightarrow> nat option" where
  "parseInt None = None"
| "parseInt (Some s) =
     (if takeWhile isDigit s = [] then None else Some (decimal (takeWhile isDigit s)))"

text \<open>
  \<open>_getVersionNumber(version)\<close>. A \<open>null\<close> match makes \<open>.slice(1)\<close> throw a
  \<open>TypeError\<close>. \<open>if (rcVersion)\<close> is false for \<open>NaN\<close> and for \<open>0\<close>.
\<close>

definition getVersionNumber :: "string \<Rightarrow> error + rat" where
  "getVersionNumber version =
     (case versionDigitRegex version of
        None \<Rightarrow> Inl TypeError
      | Some (digits, rc) \<Rightarrow>
          (case parseInt (Some (concat digits)) of
             None \<Rightarrow> Inl TypeError
           | Some versionNumber \<Rightarrow>
               (case parseInt rc of
                  None \<Rightarrow> Inr (of_nat versionNumber)
                | Some rcVersion \<Rightarrow>
                    if rcVersion \<noteq> 0
                    then Inr ((of_nat versionNumber - 1)
                               + of_nat rcVersion / (if rcVersion > 9 then 100 else 1000))
                    else Inr (of_nat versionNumber))))"

section \<open>The tool's data\<close>

text \<open>
  \<open>MaterialToolsOptions\<close> as the caller gives it: every field may be absent.
  The theme is opaque here (\<open>MdTheme\<close> belongs to the theming builder).
\<close>

record 'theme MaterialToolsOptions =
  destination :: "string option"
  modules :: "string list option"
  version :: "string option"
  theme :: "'theme option"
  mainFilename :: "string option"
  cache :: "string option"
  destinationFilename :: "string option"

text \<open>
  A \<open>MaterialTools\<close> object: \<open>themeBuilder\<close> and \<open>this.options\<close> once the constructor
  has returned. By then the four keys of \<open>DEFAULTS\<close> and the destination are defined,
  so these fields are plain strings; \<open>o_f\<close> stands for \<open>this.options.f\<close>.
\<close>

record 'theme MaterialTools =
  themeBuilder :: "'theme option"
  o_destination :: string
  o_modules :: "string list option"
  o_version :: string
  o_theme :: "'theme option"
  o_mainFilename :: string
  o_cache :: string
  o_destinationFilename :: string

record VersionData =
  vd_version :: string
  vd_module :: string

record LocalBuildFiles =
  root_path :: string
  js :: "string list"
  css :: "string list"
  scss :: "string list"
  themes :: "string list"

record Dependencies =
  flat :: "string list"

record MaterialToolsData =
  files :: LocalBuildFiles
  dependencies :: Dependencies

record MaterialToolsOutput =
  source :: string
  compressed :: string

record JSOutput = MaterialToolsOutput +
  sourceMap :: string

record CSSOutput =
  layout :: MaterialToolsOutput
  noLayout :: MaterialToolsOutput

text \<open>
  The collaborators, which are not part of \<open>MaterialTools.ts\<close>, are parameters.
  Resolvers and builders may reject or throw, so they return a sum; \<open>mkdirp\<close> hands
  an optional error to its callback. Node's \<open>path\<close> functions and the synchronous reads,
  writes and the copy of \<open>fs-extra\<close> are taken as primitives that return.
  \<open>getFullYear\<close> reads the year off a \<open>Date\<close>, given as milliseconds since the epoch.
\<close>

record 'theme env =
  path_join :: "string list \<Rightarrow> string"
  path_resolve :: "string list \<Rightarrow> string"
  path_basename :: "string \<Rightarrow> string"
  requireOptions :: "string \<Rightarrow> error + 'theme MaterialToolsOptions"
  PackageResolver_resolve :: "string \<Rightarrow> string \<Rightarrow> error + VersionData"
  DependencyResolver_resolve :: "string \<Rightarrow> string list option \<Rightarrow> error + Dependencies"
  LocalResolver_resolve :: "string list \<Rightarrow> string \<Rightarrow> error + LocalBuildFiles"
  mkdirp :: "string \<Rightarrow> error option"
  readFileSync :: "string \<Rightarrow> string"
  CSSBuilder_compileSCSS :: "string \<Rightarrow> error + string"
  ThemingBuilder_build :: "'theme \<Rightarrow> string \<Rightarrow> string"
  JSBuilder_build :: "MaterialToolsData \<Rightarrow> string \<Rightarrow> error + JSOutput"
  CSSBuilder_build :: "MaterialToolsData \<Rightarrow> error + CSSOutput"
  CSSBuilder_buildStylesheet :: "string option \<Rightarrow> error + MaterialToolsOutput"
  getFullYear :: "int \<Rightarrow> nat"

text \<open>What a run does to the outside, in program order.\<close>

datatype effect =
    ResolvePackage string string
  | ResolveDependencies string "string list option"
  | ResolveLocal "string list" string
  | MkDir string
  | Copy string string
  | WriteFile string string

section \<open>The constructor\<close>

datatype 'theme constructorArgument =
    Missing
  | ConfigFile string
  | Given "'theme MaterialToolsOptions"

definition orDefault :: "'a option \<Rightarrow> 'a \<Rightarrow> 'a" where
  "orDefault x d = (case x of None \<Rightarrow> d | Some v \<Rightarrow> v)"

text \<open>
  \<open>!_options\<close> holds for \<open>undefined\<close> and for the empty string; a non-empty string is a
  file to \<open>require\<close>. An empty destination is falsy as well.
\<close>

definition constructor ::
  "'theme env \<Rightarrow> 'theme constructorArgument \<Rightarrow> error + 'theme MaterialTools" where
  "constructor env arg =
     (case (case arg of
              Missing \<Rightarrow> Inl (Error ''No options have been specified.'')
            | ConfigFile f \<Rightarrow>
                if f = [] then Inl (Error ''No options have been specified.'')
                else requireOptions env (path_resolve env [f])
            | Given opts \<Rightarrow> Inr opts) of
        Inl e \<Rightarrow> Inl e
      | Inr opts \<Rightarrow>
          (case destination opts of
             None \<Rightarrow> Inl (Error ''You have to specify a destination.'')
           | Some d \<Rightarrow>
               if d = [] then Inl (Error ''You have to specify a destination.'')
               else Inr \<lparr> themeBuilder = theme opts,
                          o_destination = path_resolve env [d],
                          o_modules = modules opts,
                          o_version = orDefault (version opts) ''node'',
                          o_theme = theme opts,
                          o_mainFilename = orDefault (mainFilename opts) ''angular-material.js'',
                          o_cache = orDefault (cache opts) ''./.material-cache/'',
                          o_destinationFilename =
                            orDefault (destinationFilename opts) ''angular-material'' \<rparr>))"

section \<open>Resolution: \<open>_getData\<close>\<close>

text \<open>
  The three resolvers run one after the other; the first rejection ends the chain.
  \<open>options.version\<close> is overwritten with the resolved version as soon as the package
  resolver answers, so the object comes back changed.
\<close>

definition getData ::
  "'theme env \<Rightarrow> 'theme MaterialTools
     \<Rightarrow> (error + MaterialToolsData) \<times> 'theme MaterialTools \<times> effect list" where
  "getData env t0 =
     (let trace0 = [ResolvePackage (o_version t0) (o_cache t0)] in
      case PackageResolver_resolve env (o_version t0) (o_cache t0) of
        Inl e \<Rightarrow> (Inl e, t0, trace0)
      | Inr versionData \<Rightarrow>
          (let t = t0\<lparr>o_version := vd_version versionData\<rparr>;
               versionRoot = path_resolve env [vd_module versionData, ''../''];
               entry = path_join env [vd_module versionData, o_mainFilename t];
               trace1 = trace0 @ [ResolveDependencies entry (o_modules t)] in
           case DependencyResolver_resolve env entry (o_modules t) of
             Inl e \<Rightarrow> (Inl e, t, trace1)
           | Inr deps \<Rightarrow>
               (let trace2 = trace1 @ [ResolveLocal (flat deps) versionRoot] in
                case LocalResolver_resolve env (flat deps) versionRoot of
                  Inl e \<Rightarrow> (Inl e, t, trace2)
                | Inr fs \<Rightarrow> (Inr \<lparr>files = fs, dependencies = deps\<rparr>, t, trace2))))"

section \<open>The static theme: \<open>_buildStaticTheme\<close>\<close>

text \<open>The local \<open>baseSCSSFiles\<close> once the version test has run.\<close>

definition baseSCSSFiles :: "string \<Rightarrow> error + string list" where
  "baseSCSSFiles ver =
     (case getVersionNumber ver of
        Inl e \<Rightarrow> Inl e
      | Inr v \<Rightarrow>
          (case getVersionNumber ''1.1.0'' of
             Inl e \<Rightarrow> Inl e
           | Inr release \<Rightarrow>
               Inr ([''variables.scss'', ''mixins.scss'']
                    @ (if v < release then [''themes.scss''] else []))))"

text \<open>\<open>None\<close> is the \<open>undefined\<close> returned when there is no theme builder.\<close>

definition buildStaticTheme ::
  "'theme env \<Rightarrow> 'theme MaterialTools \<Rightarrow> LocalBuildFiles \<Rightarrow> error + string option" where
  "buildStaticTheme env t buildFiles =
     (case themeBuilder t of
        None \<Rightarrow> Inr None
      | Some builder \<Rightarrow>
          (case baseSCSSFiles (o_version t) of
             Inl e \<Rightarrow> Inl e
           | Inr base \<Rightarrow>
               (let scssFiles =
                      filter (\<lambda>file. path_basename env file \<in> set base) (scss buildFiles);
                    scssBaseContent = concat (map (readFileSync env) scssFiles);
                    themeSCSS = concat (map (readFileSync env) (themes buildFiles)) in
                case CSSBuilder_compileSCSS env (scssBaseContent @ themeSCSS) of
                  Inl e \<Rightarrow> Inl e
                | Inr themeCSS \<Rightarrow> Inr (Some (ThemingBuilder_build env builder themeCSS)))))"

section \<open>The banner: \<open>_getLicense\<close> and \<open>_writeFile\<close>\<close>

fun join :: "string \<Rightarrow> string list \<Rightarrow> string" where
  "join sep [] = []"
| "join sep [x] = x"
| "join sep (x # y # ys) = x @ sep @ join sep (y # ys)"

text \<open>A non-negative integer in a template string: its decimal digits.\<close>

fun showNat :: "nat \<Rightarrow> string" where
  "showNat n = (if n < 10 then [digitChar n] else showNat (n div 10) @ [digitChar (n mod 10)])"

declare showNat.simps [simp del]

definition newline :: string where
  "newline = [char_of (10 :: nat)]"

definition getLicense :: "'theme env \<Rightarrow> int \<Rightarrow> 'theme MaterialTools \<Rightarrow> string list \<Rightarrow> string" where
  "getLicense env now t mods =
     join newline
       ([''/*!'']
        @ map (\<lambda>line. '' * '' @ line)
            [''Angular Material Design'',
             ''https://github.com/angular/material'',
             ''@license MIT'',
             ''v'' @ o_version t,
             ''Built with: material-tools'',
             ''Includes modules: '' @ join '', '' mods,
             [],
             ''Copyright '' @ showNat (getFullYear env now) @ '' Google Inc. All Rights Reserved.'',
             ''Use of this source code is governed by an MIT-style license that can be ''
               @ ''found in the LICENSE file at http://material.angularjs.org/LICENSE.'']
        @ ['' */'', newline])"

definition writeFile :: "string \<Rightarrow> string \<Rightarrow> string \<Rightarrow> effect" where
  "writeFile dest content license = WriteFile dest (license @ content)"

section \<open>\<open>build\<close>\<close>

text \<open>
  The result is the promise's outcome, the object as the run leaves it, and what was
  done. A failure keeps what was done before it: nothing is rolled back.
\<close>

definition build ::
  "'theme env \<Rightarrow> int \<Rightarrow> 'theme MaterialTools
     \<Rightarrow> (error + MaterialToolsData) \<times> 'theme MaterialTools \<times> effect list" where
  "build env now t0 =
     (case getData env t0 of
        (Inl e, t, trace) \<Rightarrow> (Inl e, t, trace)
      | (Inr buildData, t, trace) \<Rightarrow>
          (case mkdirp env (o_destination t) of
             Some e \<Rightarrow> (Inl e, t, trace @ [MkDir (o_destination t)])
           | None \<Rightarrow>
               (let filename = ''LICENSE'';
                    licenseSource =
                      path_join env [root_path (files buildData), ''module'', filename];
                    licenseDestination = path_join env [o_destination t, filename];
                    trace1 = trace @ [MkDir (o_destination t), Copy licenseSource licenseDestination];
                    base = path_join env [o_destination t, o_destinationFilename t];
                    minifiedJSName = base @ ''.min.js'' in
                case JSBuilder_build env buildData minifiedJSName of
                  Inl e \<Rightarrow> (Inl e, t, trace1)
                | Inr jsOut \<Rightarrow>
                    (case CSSBuilder_build env buildData of
                       Inl e \<Rightarrow> (Inl e, t, trace1)
                     | Inr cssOut \<Rightarrow>
                         (let license = getLicense env now t (flat (dependencies buildData));
                              trace2 = trace1 @
                                [writeFile (base @ ''.js'') (source jsOut) license,
                                 writeFile minifiedJSName (compressed jsOut) license,
                                 writeFile (minifiedJSName @ ''.map'') (sourceMap jsOut) [],
                                 writeFile (base @ ''.css'') (source (layout cssOut)) license,
                                 writeFile (base @ ''.min.css'') (compressed (layout cssOut)) license,
                                 writeFile (base @ ''-no-layout.css'')
                                   (source (noLayout cssOut)) license,
                                 writeFile (base @ ''-no-layout.min.css'')
                                   (compressed (noLayout cssOut)) license] in
                          case o_theme t of
                            None \<Rightarrow> (Inr buildData, t, trace2)
                          | Some _ \<Rightarrow>
                              (case buildStaticTheme env t (files buildData) of
                                 Inl e \<Rightarrow> (Inl e, t, trace2)
                               | Inr compiledCSS \<Rightarrow>
                                   (case CSSBuilder_buildStylesheet env compiledCSS of
                                      Inl e \<Rightarrow> (Inl e, t, trace2)
                                    | Inr themeStylesheet \<Rightarrow>
                                        (Inr buildData, t, trace2 @
                                          [writeFile (base @ ''-theme.min.css'')
                                             (compressed themeStylesheet) license,
                                           writeFile (base @ ''-theme.css'')
                                             (source themeStylesheet) license]))))))))"

text \<open>
  An object exists only if its constructor returned: a use of the tool is
  \<open>new MaterialTools(options).build()\<close>, and a constructor that throws leaves nothing
  to call \<open>build\<close> on.
\<close>

definition newThenBuild ::
  "'theme env \<Rightarrow> int \<Rightarrow> 'theme constructorArgument \<Rightarrow> (error + MaterialToolsData) \<times> effect list" where
  "newThenBuild env now arg =
     (case constructor env arg of
        Inl e \<Rightarrow> (Inl e, [])
      | Inr t \<Rightarrow> (case build env now t of (r, _, trace) \<Rightarrow> (r, trace)))"

text \<open>The files a run wrote, and the copies it started.\<close>

fun written :: "effect list \<Rightarrow> (string \<times> string) list" where
  "written [] = []"
| "written (WriteFile p c # es) = (p, c) # written es"
| "written (_ # es) = written es"

fun copied :: "effect list \<Rightarrow> (string \<times> string) list" where
  "copied [] = []"
| "copied (Copy a b # es) = (a, b) # copied es"
| "copied (_ # es) = copied es"

section \<open>The local resolver\<close>

text \<open>
  Modelled from the spec: the errors of \<open>LocalResolver.resolve\<close>, whose file
  (\<open>lib/resolvers/LocalResolver.ts\<close>) is not among the sources; only its test is.
\<close>

datatype resolveError =
    ModuleDirectoryNotFoundError string
  | InvalidModuleLayoutError string

text \<open>
  Modelled from the spec: the result of \<open>LocalResolver.resolve\<close>, the three lists its
  test reads (\<open>files.js\<close>, \<open>files.css\<close>, \<open>files.themes\<close>).
\<close>

record ResolvedModuleFiles =
  r_js :: "string list"
  r_css :: "string list"
  r_themes :: "string list"

text \<open>
  Modelled from the spec: "Minified files (\<open>*.min.*\<close>) are always excluded from
  resolution", whatever the extension. The marker is looked for in the path that would
  be returned, so that no returned path contains it.
\<close>

definition isMinified :: "string \<Rightarrow> bool" where
  "isMinified p = sublist ''.min.'' p"

text \<open>Modelled from the spec: the JS sources are the non-minified \<open>.js\<close> files.\<close>

definition isJSSource :: "string \<Rightarrow> bool" where
  "isJSSource p = (\<not> isMinified p \<and> suffix ''.js'' p)"

text \<open>
  Modelled from the spec: the stylesheets are the non-minified \<open>.css\<close> and \<open>.scss\<close>
  files; those that match the theme-file naming pattern are theme sources, the others
  style sources.
\<close>

definition isStylesheet :: "string \<Rightarrow> bool" where
  "isStylesheet p = (\<not> isMinified p \<and> (suffix ''.css'' p \<or> suffix ''.scss'' p))"

text \<open>
  Modelled from the spec: one module of \<open>LocalResolver.resolve\<close>. \<open>dir\<close> gives the paths
  of the files in a module's directory, \<open>None\<close> when there is no such directory. The
  theme-file naming pattern, which the spec does not spell out, is the parameter
  \<open>isTheme\<close>. Zero or several JS sources are an error; no stylesheet at all is fine.
\<close>

definition resolveModule ::
  "(string \<Rightarrow> bool) \<Rightarrow> (string \<Rightarrow> string list option) \<Rightarrow> string
     \<Rightarrow> resolveError + ResolvedModuleFiles" where
  "resolveModule isTheme dir m =
     (case dir m of
        None \<Rightarrow> Inl (ModuleDirectoryNotFoundError m)
      | Some paths \<Rightarrow>
          if length (filter isJSSource paths) \<noteq> 1 then Inl (InvalidModuleLayoutError m)
          else Inr \<lparr> r_js = filter isJSSource paths,
                     r_css = filter (\<lambda>p. isStylesheet p \<and> \<not> isTheme p) paths,
                     r_themes = filter (\<lambda>p. isStylesheet p \<and> isTheme p) paths \<rparr>)"

text \<open>
  Modelled from the spec: the modules of \<open>LocalResolver.resolve\<close> in the order of
  \<open>moduleIds\<close>; the first module in error aborts the whole resolution.
\<close>

fun resolveModules ::
  "(string \<Rightarrow> bool) \<Rightarrow> (string \<Rightarrow> string list option) \<Rightarrow> string list
     \<Rightarrow> resolveError + ResolvedModuleFiles" where
  "resolveModules isTheme dir [] = Inr \<lparr> r_js = [], r_css = [], r_themes = [] \<rparr>"
| "resolveModules isTheme dir (m # ms) =
     (case resolveModule isTheme dir m of
        Inl e \<Rightarrow> Inl e
      | Inr f \<Rightarrow>
          (case resolveModules isTheme dir ms of
             Inl e \<Rightarrow> Inl e
           | Inr r \<Rightarrow> Inr \<lparr> r_js = r_js f @ r_js r,
                            r_css = r_css f @ r_css r,
                            r_themes = r_themes f @ r_themes r \<rparr>))"

text \<open>
  Modelled from the spec: \<open>LocalResolver.resolve(moduleIds, packageRoot)\<close>. \<open>tree\<close> is
  the file system: it gives a package root its module directories, \<open>None\<close> when the
  root does not exist.
\<close>

definition resolveLocal ::
  "(string \<Rightarrow> bool) \<Rightarrow> (string \<Rightarrow> (string \<Rightarrow> string list option) option)
     \<Rightarrow> string list \<Rightarrow> string \<Rightarrow> resolveError + ResolvedModuleFiles" where
  "resolveLocal isTheme tree moduleIds packageRoot =
     (case tree packageRoot of
        None \<Rightarrow> Inl (ModuleDirectoryNotFoundError packageRoot)
      | Some dir \<Rightarrow> resolveModules isTheme dir moduleIds)"

section \<open>A package to run the definitions on\<close>

text \<open>
  The fixture of the resolver's test: a \<open>tooltip\<close> module with a minified twin of each
  file, a module without stylesheets and a module without JS.
\<close>

definition fixtureDir :: "string \<Rightarrow> string list option" where
  "fixtureDir m =
     (if m = ''tooltip'' then
        Some [''/fx/tooltip/tooltip.js'', ''/fx/tooltip/tooltip.min.js'',
              ''/fx/tooltip/tooltip.css'', ''/fx/tooltip/tooltip.min.css'',
              ''/fx/tooltip/tooltip-default-theme.css'']
      else if m = ''noCSS'' then Some [''/fx/noCSS/noCSS.js'']
      else if m = ''noJS'' then Some [''/fx/noJS/noJS.css'', ''/fx/noJS/noJS.min.js'']
      else None)"

definition fixtureTree :: "string \<Rightarrow> (string \<Rightarrow> string list option) option" where
  "fixtureTree r = (if r = ''/fx'' then Some fixtureDir else None)"

definition fixtureIsTheme :: "string \<Rightarrow> bool" where
  "fixtureIsTheme p = sublist ''-theme'' p"

text \<open>
  Stand-ins for the collaborators, with a string for the theme. Paths are joined with
  a slash, a file's content is its path in brackets, the compiler and the builders
  mark what they were given, and the year is counted in mean Gregorian years.
\<close>

definition fixtureFiles :: "string \<Rightarrow> LocalBuildFiles" where
  "fixtureFiles r =
     \<lparr> root_path = r,
       js = [''/p/core/core.js'', ''/p/tooltip/tooltip.js''],
       css = [''/p/core/core.css'', ''/p/tooltip/tooltip.css''],
       scss = [''/p/core/variables.scss'', ''/p/core/layout.scss'',
               ''/p/core/mixins.scss'', ''/p/core/themes.scss''],
       themes = [''/p/core/core-default-theme.scss'', ''/p/tooltip/tooltip-default-theme.scss''] \<rparr>"

definition fixtureEnv :: "string env" where
  "fixtureEnv =
     \<lparr> path_join = join ''/'',
       path_resolve = join ''/'',
       path_basename = (\<lambda>p. rev (takeWhile (\<lambda>c. c \<noteq> CHR ''/'') (rev p))),
       requireOptions = (\<lambda>f. Inl (Error ''Cannot find module'')),
       PackageResolver_resolve = (\<lambda>v c. Inr \<lparr> vd_version = v, vd_module = ''/p/module'' \<rparr>),
       DependencyResolver_resolve = (\<lambda>f m. Inr \<lparr> flat = [''core'', ''tooltip''] \<rparr>),
       LocalResolver_resolve = (\<lambda>ms r. Inr (fixtureFiles ''/p'')),
       mkdirp = (\<lambda>d. None),
       readFileSync = (\<lambda>p. ''<'' @ p @ ''>''),
       CSSBuilder_compileSCSS = (\<lambda>s. Inr (''css:'' @ s)),
       ThemingBuilder_build = (\<lambda>th s. th @ '':'' @ s),
       JSBuilder_build = (\<lambda>d n. Inr \<lparr> source = ''JS'', compressed = ''js'', sourceMap = ''map'' \<rparr>),
       CSSBuilder_build =
         (\<lambda>d. Inr \<lparr> layout = \<lparr> source = ''CSS'', compressed = ''css'' \<rparr>,
                     noLayout = \<lparr> source = ''NL'', compressed = ''nl'' \<rparr> \<rparr>),
       CSSBuilder_buildStylesheet =
         (\<lambda>c. Inr \<lparr> source = orDefault c ''undefined'', compressed = ''th'' \<rparr>),
       getFullYear = (\<lambda>ms. nat (1970 + ms div 31556952000)) \<rparr>"

definition fixtureTools :: "string \<Rightarrow> string option \<Rightarrow> string MaterialTools" where
  "fixtureTools ver th =
     \<lparr> themeBuilder = th,
       o_destination = ''/out'',
       o_modules = None,
       o_version = ver,
       o_theme = th,
       o_mainFilename = ''angular-material.js'',
       o_cache = ''./.material-cache/'',
       o_destinationFilename = ''angular-material'' \<rparr>"


definition fixtureOptions :: "string MaterialToolsOptions" where
  "fixtureOptions =
     \<lparr> destination = None, modules = Some [''tooltip''], version = Some ''1.0.5'',
       theme = None, mainFilename = None, cache = None, destinationFilename = None \<rparr>"

section \<open>The order of versions\<close>

text \<open>
  Modelled from the spec: a version of the data model, a semantic version
  \<open>major.minor.patch\<close> with an optional release-candidate number.
\<close>

record Version =
  major :: nat
  minor :: nat
  patch :: nat
  candidate :: "nat option"

text \<open>
  Modelled from the spec: the total order of versions, in which the release
  candidates of a version sort below the final version (\<open>1.1.0-rc.1 < 1.1.0 < 1.2.0\<close>).
\<close>

definition versionBefore :: "Version \<Rightarrow> Version \<Rightarrow> bool" where
  "versionBefore v w =
     (major v < major w
      \<or> (major v = major w
          \<and> (minor v < minor w
              \<or> (minor v = minor w
                  \<and> (patch v < patch w
                      \<or> (patch v = patch w
                          \<and> (case (candidate v, candidate w) of
                                (Some n, None) \<Rightarrow> True
                              | (Some n, Some m) \<Rightarrow> n < m
                              | (None, _) \<Rightarrow> False)))))))"

text \<open>Modelled from the spec: a version written out, as in \<open>1.1.0-rc.1\<close>.\<close>

definition versionString :: "Version \<Rightarrow> string" where
  "versionString v =
     showNat (major v) @ ''.'' @ showNat (minor v) @ ''.'' @ showNat (patch v)
     @ (case candidate v of None \<Rightarrow> [] | Some n \<Rightarrow> ''-rc.'' @ showNat n)"

definition release_1_1_0 :: Version where
  "release_1_1_0 = \<lparr> major = 1, minor = 1, patch = 0, candidate = None \<rparr>"

section \<open>What the version expression matches\<close>






lemma matchHere_short: "length xs < 5 \<Longrightarrow> matchHere xs = None"
  by (cases xs rule: matchHere.cases) auto





lemma rcGroup_Nil: "rcGroup [] = None"
  by (simp add: rcGroup_def)

lemma getVersionNumber_digits:
  assumes "isDigit x" "isDigit y" "isDigit z"
  shows "getVersionNumber [x, CHR ''.'', y, CHR ''.'', z] =
           Inr (of_nat (100 * digitVal x + 10 * digitVal y + digitVal z))"
  using assms by (simp add: getVersionNumber_def rcGroup_Nil decimal_def)

text \<open>Decimal digits: \<open>showNat\<close> writes what \<open>decimal\<close> reads.\<close>

lemma isDigit_digitChar: "d < 10 \<Longrightarrow> isDigit (digitChar d)"
  by (simp add: isDigit_def digitChar_def)

lemma digitVal_digitChar: "d < 10 \<Longrightarrow> digitVal (digitChar d) = d"
  by (simp add: digitVal_def digitChar_def)

lemma showNat_digits: "list_all isDigit (showNat n)"
proof (induction n rule: showNat.induct)
  case (1 n)
  then show ?case
    by (subst showNat.simps) (simp add: isDigit_digitChar)
qed

lemma showNat_nonempty: "showNat n \<noteq> []"
  by (subst showNat.simps) simp

lemma decimal_snoc: "decimal (ds @ [c]) = 10 * decimal ds + digitVal c"
  by (simp add: decimal_def)

lemma decimal_showNat: "decimal (showNat n) = n"
proof (induction n rule: showNat.induct)
  case (1 n)
  show ?case
  proof (cases "n < 10")
    case True
    then show ?thesis
      by (subst showNat.simps) (simp add: decimal_def digitVal_digitChar)
  next
    case False
    with 1 show ?thesis
      by (subst showNat.simps) (simp add: decimal_snoc digitVal_digitChar)
  qed
qed

lemma takeWhile_digits: "list_all isDigit ds \<Longrightarrow> takeWhile isDigit ds = ds"
  by (induction ds) auto

lemma rcGroup_rc: "list_all isDigit N \<Longrightarrow> N \<noteq> [] \<Longrightarrow> rcGroup (''-rc.'' @ N) = Some N"
  by (simp add: rcGroup_def isLineTerminator_def takeWhile_digits)

lemma getVersionNumber_rc:
  assumes "isDigit x" "isDigit y" "isDigit z"
  shows "getVersionNumber ([x, CHR ''.'', y, CHR ''.'', z] @ ''-rc.'' @ showNat n) =
           (if n = 0 then Inr (of_nat (100 * digitVal x + 10 * digitVal y + digitVal z))
            else Inr (of_nat (100 * digitVal x + 10 * digitVal y + digitVal z) - 1
                      + of_nat n / (if n > 9 then 100 else 1000)))"
proof -
  have "rcGroup (''-rc.'' @ showNat n) = Some (showNat n)"
    by (rule rcGroup_rc [OF showNat_digits showNat_nonempty])
  then have "matchHere ([x, CHR ''.'', y, CHR ''.'', z] @ ''-rc.'' @ showNat n) =
      Some ([[x], [y], [z]], Some (showNat n))"
    using assms by simp
  then have "versionDigitRegex ([x, CHR ''.'', y, CHR ''.'', z] @ ''-rc.'' @ showNat n) =
      Some ([[x], [y], [z]], Some (showNat n))"
    by simp
  then show ?thesis
    using assms
    by (simp add: getVersionNumber_def decimal_def takeWhile_digits showNat_digits
        showNat_nonempty decimal_showNat [unfolded decimal_def])
qed

text \<open>
  A release candidate of a version with one-digit components: its key is below the
  key of the final release exactly when the candidate number is below 100.
\<close>

lemma getVersionNumber_rc_order:
  assumes "isDigit x" "isDigit y" "isDigit z" "1 \<le> n"
  shows "\<exists>a b. getVersionNumber ([x, CHR ''.'', y, CHR ''.'', z] @ ''-rc.'' @ showNat n) = Inr a
           \<and> getVersionNumber [x, CHR ''.'', y, CHR ''.'', z] = Inr b
           \<and> (a < b \<longleftrightarrow> n < 100)"
proof -
  define V :: rat where "V = of_nat (100 * digitVal x + 10 * digitVal y + digitVal z)"
  define d :: rat where "d = (if n > 9 then 100 else 1000)"
  have a: "getVersionNumber ([x, CHR ''.'', y, CHR ''.'', z] @ ''-rc.'' @ showNat n)
             = Inr (V - 1 + of_nat n / d)"
    using getVersionNumber_rc [OF assms(1-3), of n] assms(4) by (simp add: V_def d_def)
  have b: "getVersionNumber [x, CHR ''.'', y, CHR ''.'', z] = Inr V"
    using getVersionNumber_digits [OF assms(1-3)] by (simp add: V_def)
  have "(of_nat n / d < 1) \<longleftrightarrow> n < 100"
    by (auto simp: d_def)
  then have "(V - 1 + of_nat n / d < V) \<longleftrightarrow> n < 100"
    by linarith
  with a b show ?thesis by blast
qed

lemma getVersionNumber_release: "getVersionNumber ''1.1.0'' = Inr 110"
  using getVersionNumber_digits [of "CHR ''1''" "CHR ''1''" "CHR ''0''"]
  by (simp add: isDigit_def digitVal_def)

text \<open>
  The legacy file for a version with one-digit components: it is in the base set
  exactly when the version is before 1.1.0 in the order of versions.
\<close>

lemma baseSCSSFiles_digits:
  assumes "isDigit x" "isDigit y" "isDigit z"
  shows "baseSCSSFiles [x, CHR ''.'', y, CHR ''.'', z] =
           Inr ([''variables.scss'', ''mixins.scss'']
                @ (if digitVal x < 1 \<or> digitVal x = 1 \<and> digitVal y < 1
                   then [''themes.scss''] else []))"
proof -
  have "digitVal y < 10" "digitVal z < 10"
    using assms by (auto simp: isDigit_def digitVal_def)
  then have "(100 * digitVal x + 10 * digitVal y + digitVal z < 110)
               \<longleftrightarrow> (digitVal x < 1 \<or> digitVal x = 1 \<and> digitVal y < 1)"
    by arith
  moreover have "(of_nat (100 * digitVal x + 10 * digitVal y + digitVal z) < (110 :: rat))
               \<longleftrightarrow> (100 * digitVal x + 10 * digitVal y + digitVal z < 110)"
    by (metis of_nat_less_iff of_nat_numeral)
  ultimately show ?thesis
    using getVersionNumber_digits [OF assms] getVersionNumber_release
    by (simp add: baseSCSSFiles_def)
qed

lemma showNat_digit: "d < 10 \<Longrightarrow> showNat d = [digitChar d]"
  by (subst showNat.simps) simp

lemma baseSCSSFiles_rc:
  assumes "isDigit x" "isDigit y" "isDigit z" "1 \<le> n" "n < 100"
  shows "baseSCSSFiles ([x, CHR ''.'', y, CHR ''.'', z] @ ''-rc.'' @ showNat n) =
           Inr ([''variables.scss'', ''mixins.scss'']
                @ (if 100 * digitVal x + 10 * digitVal y + digitVal z \<le> 110
                   then [''themes.scss''] else []))"
proof -
  define V where "V = 100 * digitVal x + 10 * digitVal y + digitVal z"
  define d :: rat where "d = (if n > 9 then 100 else 1000)"
  have k: "getVersionNumber ([x, CHR ''.'', y, CHR ''.'', z] @ ''-rc.'' @ showNat n)
             = Inr (of_nat V - 1 + of_nat n / d)"
    using getVersionNumber_rc [OF assms(1-3), of n] assms(4) by (simp add: V_def d_def)
  have f: "0 < of_nat n / d" "of_nat n / d < 1"
    using assms(4,5) by (auto simp: d_def)
  have "(of_nat V - 1 + of_nat n / d < (110 :: rat)) \<longleftrightarrow> V \<le> 110"
  proof
    assume "of_nat V - 1 + of_nat n / d < (110 :: rat)"
    with f have "(of_nat V :: rat) < 111" by linarith
    then have "V < 111" by (metis of_nat_less_iff of_nat_numeral)
    then show "V \<le> 110" by simp
  next
    assume "V \<le> 110"
    then have "(of_nat V :: rat) \<le> 110" by (metis of_nat_le_iff of_nat_numeral)
    with f show "of_nat V - 1 + of_nat n / d < (110 :: rat)" by linarith
  qed
  then show ?thesis
    using k getVersionNumber_release by (simp add: baseSCSSFiles_def V_def)
qed

section \<open>Claims about the version key\<close>

text \<open>
  Claim C1. A release candidate should sort below its final release for every
  candidate number from 1 on. The key does not do that from 100 on: candidate 100 of
  1.1.0 gets the key of 1.1.0 itself, and candidate 150 a larger one. The instances
  the claim names do hold: the keys of 1.1.0-rc.1, 1.1.0 and 1.2.0 are 109.001, 110
  and 120.
\<close>

theorem getVersionNumber_rc_100:
  "getVersionNumber ''1.1.0-rc.100'' = Inr 110
   \<and> getVersionNumber ''1.1.0'' = Inr 110
   \<and> getVersionNumber ''1.1.0-rc.150'' = Inr (221 / 2)
   \<and> getVersionNumber ''1.1.0-rc.1'' = Inr (109001 / 1000)
   \<and> getVersionNumber ''1.2.0'' = Inr 120"
  by code_simp

text \<open>
  Claim C2. The legacy file \<open>themes.scss\<close> should be in the base set exactly for the
  versions strictly before 1.1.0. Candidate 100 of 1.1.0 is before 1.1.0 and does not
  get it, since its key is the key of 1.1.0; 10.0.0 is after 1.1.0 and gets it,
  because the expression matches \<open>0.0.0\<close> inside it; 0.10.0 is before 1.1.0 and
  does not get it, because the version test throws.
\<close>

theorem baseSCSSFiles_rc_100:
  "baseSCSSFiles ''1.1.0-rc.100'' = Inr [''variables.scss'', ''mixins.scss'']
   \<and> baseSCSSFiles ''10.0.0'' = Inr [''variables.scss'', ''mixins.scss'', ''themes.scss'']
   \<and> baseSCSSFiles ''0.10.0'' = Inl TypeError"
  by code_simp

text \<open>
  Where the test is right: for a version whose major, minor and patch are one digit
  each, final or a release candidate numbered from 1 to 99, \<open>themes.scss\<close> is in the
  base set exactly when the version is strictly before 1.1.0 in the order of
  versions; so it is not for 1.1.0 itself, nor for anything later.
\<close>

lemma baseSCSSFiles_quirk:
  assumes "major v < 10" "minor v < 10" "patch v < 10"
    and "\<forall>n. candidate v = Some n \<longrightarrow> 1 \<le> n \<and> n < 100"
  shows "baseSCSSFiles (versionString v) =
           Inr ([''variables.scss'', ''mixins.scss'']
                @ (if versionBefore v release_1_1_0 then [''themes.scss''] else []))"
proof (cases "candidate v")
  case None
  have "baseSCSSFiles [digitChar (major v), CHR ''.'', digitChar (minor v), CHR ''.'',
            digitChar (patch v)] =
           Inr ([''variables.scss'', ''mixins.scss'']
                @ (if major v < 1 \<or> major v = 1 \<and> minor v < 1
                   then [''themes.scss''] else []))"
    using baseSCSSFiles_digits [of "digitChar (major v)" "digitChar (minor v)"
        "digitChar (patch v)"] assms(1-3)
    by (simp add: isDigit_digitChar digitVal_digitChar)
  with None assms(1-3) show ?thesis
    by (simp add: versionString_def showNat_digit versionBefore_def release_1_1_0_def)
next
  case (Some n)
  with assms(4) have n: "1 \<le> n" "n < 100" by auto
  have "(100 * major v + 10 * minor v + patch v \<le> 110)
          \<longleftrightarrow> (major v < 1 \<or> major v = 1 \<and> (minor v < 1 \<or> minor v = 1 \<and> patch v = 0))"
    using assms(1-3) by arith
  moreover have "baseSCSSFiles ([digitChar (major v), CHR ''.'', digitChar (minor v), CHR ''.'',
            digitChar (patch v)] @ ''-rc.'' @ showNat n) =
           Inr ([''variables.scss'', ''mixins.scss'']
                @ (if 100 * major v + 10 * minor v + patch v \<le> 110
                   then [''themes.scss''] else []))"
    using baseSCSSFiles_rc [of "digitChar (major v)" "digitChar (minor v)"
        "digitChar (patch v)" n] assms(1-3) n
    by (simp add: isDigit_digitChar digitVal_digitChar)
  ultimately show ?thesis
    using Some assms(1-3)
    by (auto simp: versionString_def showNat_digit versionBefore_def release_1_1_0_def)
qed

lemma baseSCSSFiles_quirk_examples:
  "baseSCSSFiles ''1.0.9'' = Inr [''variables.scss'', ''mixins.scss'', ''themes.scss'']
   \<and> baseSCSSFiles ''1.1.0-rc.5'' = Inr [''variables.scss'', ''mixins.scss'', ''themes.scss'']
   \<and> baseSCSSFiles ''1.1.0'' = Inr [''variables.scss'', ''mixins.scss'']
   \<and> baseSCSSFiles ''1.1.1-rc.1'' = Inr [''variables.scss'', ''mixins.scss'']"
proof -
  have s: "showNat 0 = ''0''" "showNat (Suc 0) = ''1''" "showNat 5 = ''5''" "showNat 9 = ''9''"
    by code_simp+
  show ?thesis
    using baseSCSSFiles_quirk [of "\<lparr> major = 1, minor = 0, patch = 9, candidate = None \<rparr>"]
      baseSCSSFiles_quirk [of "\<lparr> major = 1, minor = 1, patch = 0, candidate = Some 5 \<rparr>"]
      baseSCSSFiles_quirk [of "\<lparr> major = 1, minor = 1, patch = 0, candidate = None \<rparr>"]
      baseSCSSFiles_quirk [of "\<lparr> major = 1, minor = 1, patch = 1, candidate = Some 1 \<rparr>"]
    by (simp add: versionString_def versionBefore_def release_1_1_0_def s)
qed




section \<open>Claims about the local resolver\<close>

lemma resolveModule_Inr:
  "resolveModule isTheme dir m = Inr f \<Longrightarrow>
     \<exists>paths. dir m = Some paths \<and> length (filter isJSSource paths) = 1
       \<and> r_js f = filter isJSSource paths
       \<and> r_css f = filter (\<lambda>p. isStylesheet p \<and> \<not> isTheme p) paths
       \<and> r_themes f = filter (\<lambda>p. isStylesheet p \<and> isTheme p) paths"
  by (auto simp: resolveModule_def split: option.splits if_splits)

lemma resolveModules_js_length:
  "resolveModules isTheme dir ms = Inr r \<Longrightarrow> length (r_js r) = length ms"
proof (induction ms arbitrary: r)
  case Nil
  then show ?case by auto
next
  case (Cons m ms)
  then show ?case
    by (auto split: sum.splits dest!: resolveModule_Inr)
qed

lemma resolveModules_reject:
  "m \<in> set ms \<Longrightarrow> dir m = Some paths \<Longrightarrow> filter isJSSource paths = [] \<Longrightarrow>
     \<exists>e. resolveModules isTheme dir ms = Inl e"
proof (induction ms)
  case Nil
  then show ?case by simp
next
  case (Cons a ms)
  then show ?case
    by (auto simp: resolveModule_def split: sum.splits option.splits)
qed

lemma resolveModules_contents:
  "\<forall>m\<in>set ms. \<exists>paths. dir m = Some paths \<and> length (filter isJSSource paths) = 1 \<Longrightarrow>
     resolveModules isTheme dir ms =
       Inr \<lparr> r_js = concat (map (\<lambda>m. case dir m of None \<Rightarrow> []
                                  | Some ps \<Rightarrow> filter isJSSource ps) ms),
             r_css = concat (map (\<lambda>m. case dir m of None \<Rightarrow> []
                                  | Some ps \<Rightarrow> filter (\<lambda>p. isStylesheet p \<and> \<not> isTheme p) ps) ms),
             r_themes = concat (map (\<lambda>m. case dir m of None \<Rightarrow> []
                                  | Some ps \<Rightarrow> filter (\<lambda>p. isStylesheet p \<and> isTheme p) ps) ms) \<rparr>"
proof (induction ms)
  case Nil
  then show ?case by simp
next
  case (Cons a ms)
  then obtain paths where a: "dir a = Some paths" "length (filter isJSSource paths) = 1"
    by auto
  from Cons have "resolveModules isTheme dir ms =
       Inr \<lparr> r_js = concat (map (\<lambda>m. case dir m of None \<Rightarrow> []
                                  | Some ps \<Rightarrow> filter isJSSource ps) ms),
             r_css = concat (map (\<lambda>m. case dir m of None \<Rightarrow> []
                                  | Some ps \<Rightarrow> filter (\<lambda>p. isStylesheet p \<and> \<not> isTheme p) ps) ms),
             r_themes = concat (map (\<lambda>m. case dir m of None \<Rightarrow> []
                                  | Some ps \<Rightarrow> filter (\<lambda>p. isStylesheet p \<and> isTheme p) ps) ms) \<rparr>"
    by simp
  with a show ?case
    by (simp add: resolveModule_def)
qed

lemma filter_stylesheet_empty:
  "filter isStylesheet paths = [] \<Longrightarrow> filter (\<lambda>p. isStylesheet p \<and> Q p) paths = []"
  by (auto simp: filter_empty_conv)

lemma resolveModules_paths:
  "resolveModules isTheme dir ms = Inr r \<Longrightarrow>
     \<forall>p\<in>set (r_js r @ r_css r @ r_themes r). \<not> isMinified p"
proof (induction ms arbitrary: r)
  case Nil
  then show ?case by auto
next
  case (Cons m ms)
  then show ?case
    by (auto split: sum.splits dest!: resolveModule_Inr simp: isJSSource_def isStylesheet_def)
qed

text \<open>
  Claim C4. On an existing package root: when every requested module has its
  directory and exactly one non-minified JS file, the resolution succeeds whatever
  the stylesheets are, and its lists are the modules' files in the order of the
  modules; a module without any non-minified stylesheet adds nothing to the \<open>css\<close>
  and \<open>themes\<close> lists; a requested module without a non-minified JS file makes the
  resolution reject; and a resolution that succeeds holds one JS file for each
  requested module, so that no module's JS is skipped.
\<close>

theorem resolveLocal_css_optional:
  assumes "tree packageRoot = Some dir"
  shows "((\<forall>m\<in>set ms. \<exists>paths. dir m = Some paths \<and> length (filter isJSSource paths) = 1) \<longrightarrow>
            resolveLocal isTheme tree ms packageRoot =
              Inr \<lparr> r_js = concat (map (\<lambda>m. case dir m of None \<Rightarrow> []
                            | Some ps \<Rightarrow> filter isJSSource ps) ms),
                    r_css = concat (map (\<lambda>m. case dir m of None \<Rightarrow> []
                            | Some ps \<Rightarrow> filter (\<lambda>p. isStylesheet p \<and> \<not> isTheme p) ps) ms),
                    r_themes = concat (map (\<lambda>m. case dir m of None \<Rightarrow> []
                            | Some ps \<Rightarrow> filter (\<lambda>p. isStylesheet p \<and> isTheme p) ps) ms) \<rparr>)
       \<and> (filter isStylesheet paths = [] \<longrightarrow>
            filter (\<lambda>p. isStylesheet p \<and> \<not> isTheme p) paths = []
            \<and> filter (\<lambda>p. isStylesheet p \<and> isTheme p) paths = [])
       \<and> (m \<in> set ms \<and> dir m = Some paths \<and> filter isJSSource paths = [] \<longrightarrow>
            (\<exists>e. resolveLocal isTheme tree ms packageRoot = Inl e))
       \<and> (\<forall>r. resolveLocal isTheme tree ms packageRoot = Inr r \<longrightarrow>
            length (r_js r) = length ms)"
  using assms resolveModules_contents [of ms dir isTheme]
    resolveModules_reject [of m ms dir paths isTheme]
    resolveModules_js_length [of isTheme dir ms]
    filter_stylesheet_empty [of paths]
  by (simp add: resolveLocal_def)

theorem resolveLocal_css_optional_witness:
  "resolveLocal fixtureIsTheme fixtureTree [''noCSS''] ''/fx'' =
     Inr \<lparr> r_js = [''/fx/noCSS/noCSS.js''], r_css = [], r_themes = [] \<rparr>
   \<and> resolveLocal fixtureIsTheme fixtureTree [''noJS''] ''/fx'' =
     Inl (InvalidModuleLayoutError ''noJS'')
   \<and> fixtureTree ''/fx'' = Some fixtureDir
   \<and> fixtureDir ''noCSS'' = Some [''/fx/noCSS/noCSS.js'']
   \<and> filter isStylesheet [''/fx/noCSS/noCSS.js''] = []
   \<and> filter isJSSource [''/fx/noCSS/noCSS.js''] = [''/fx/noCSS/noCSS.js'']
   \<and> fixtureDir ''noJS'' = Some [''/fx/noJS/noJS.css'', ''/fx/noJS/noJS.min.js'']
   \<and> filter isJSSource [''/fx/noJS/noJS.css'', ''/fx/noJS/noJS.min.js''] = []"
proof -
  have t: "fixtureTree ''/fx'' = Some fixtureDir" by (simp add: fixtureTree_def)
  have d1: "fixtureDir ''noCSS'' = Some [''/fx/noCSS/noCSS.js'']" by (simp add: fixtureDir_def)
  have d2: "fixtureDir ''noJS'' = Some [''/fx/noJS/noJS.css'', ''/fx/noJS/noJS.min.js'']"
    by (simp add: fixtureDir_def)
  have j1: "filter isJSSource [''/fx/noCSS/noCSS.js''] = [''/fx/noCSS/noCSS.js'']" by code_simp
  have s1: "filter isStylesheet [''/fx/noCSS/noCSS.js''] = []" by code_simp
  have j2: "filter isJSSource [''/fx/noJS/noJS.css'', ''/fx/noJS/noJS.min.js''] = []" by code_simp
  have r1: "resolveLocal fixtureIsTheme fixtureTree [''noCSS''] ''/fx'' =
     Inr \<lparr> r_js = [''/fx/noCSS/noCSS.js''], r_css = [], r_themes = [] \<rparr>"
    using resolveLocal_css_optional [where tree = fixtureTree and packageRoot = "''/fx''"
        and dir = fixtureDir and ms = "[''noCSS'']" and isTheme = fixtureIsTheme
        and paths = "[''/fx/noCSS/noCSS.js'']"] t d1 j1 s1
    by simp
  have r2: "resolveLocal fixtureIsTheme fixtureTree [''noJS''] ''/fx'' =
     Inl (InvalidModuleLayoutError ''noJS'')"
    using resolveLocal_css_optional [where tree = fixtureTree and packageRoot = "''/fx''"
        and dir = fixtureDir and ms = "[''noJS'']" and m = "''noJS''"
        and paths = "[''/fx/noJS/noJS.css'', ''/fx/noJS/noJS.min.js'']"
        and isTheme = fixtureIsTheme] t d2 j2
    by (auto simp: resolveLocal_def resolveModule_def)
  show ?thesis using t d1 d2 j1 s1 j2 r1 r2 by simp
qed

text \<open>
  Claim C5. No path that a successful resolution returns, in its JS, CSS or theme
  list, contains the marker \<open>.min.\<close>.
\<close>

theorem resolveLocal_no_minified:
  assumes "resolveLocal isTheme tree ms packageRoot = Inr r"
  shows "\<forall>p\<in>set (r_js r @ r_css r @ r_themes r). \<not> sublist ''.min.'' p"
  using assms resolveModules_paths [of isTheme _ ms r]
  by (auto simp: resolveLocal_def isMinified_def split: option.splits)

theorem resolveLocal_no_minified_witness:
  "resolveLocal fixtureIsTheme fixtureTree [''tooltip''] ''/fx'' =
     Inr \<lparr> r_js = [''/fx/tooltip/tooltip.js''], r_css = [''/fx/tooltip/tooltip.css''],
           r_themes = [''/fx/tooltip/tooltip-default-theme.css''] \<rparr>
   \<and> \<not> sublist ''.min.'' ''/fx/tooltip/tooltip.js''
   \<and> \<not> sublist ''.min.'' ''/fx/tooltip/tooltip.css''
   \<and> \<not> sublist ''.min.'' ''/fx/tooltip/tooltip-default-theme.css''"
proof -
  have h: "resolveLocal fixtureIsTheme fixtureTree [''tooltip''] ''/fx'' =
     Inr \<lparr> r_js = [''/fx/tooltip/tooltip.js''], r_css = [''/fx/tooltip/tooltip.css''],
           r_themes = [''/fx/tooltip/tooltip-default-theme.css''] \<rparr>"
    by code_simp
  show ?thesis using resolveLocal_no_minified [OF h] h by simp
qed

section \<open>Claims about the constructor and the build\<close>

lemma written_append: "written (xs @ ys) = written xs @ written ys"
  by (induction xs rule: written.induct) auto


lemma getData_facts:
  assumes "getData env t0 = (r, t, tr)"
  shows "written tr = []" and "copied tr = []"
    and "o_destination t = o_destination t0"
    and "o_destinationFilename t = o_destinationFilename t0"
    and "o_theme t = o_theme t0"
    and "themeBuilder t = themeBuilder t0"
    and "\<And>vd. PackageResolver_resolve env (o_version t0) (o_cache t0) = Inr vd
           \<Longrightarrow> o_version t = vd_version vd"
  using assms by (auto simp: getData_def Let_def split: sum.splits)

lemma sublist_concat_member: "x \<in> set xss \<Longrightarrow> sublist x (concat xss)"
proof -
  assume "x \<in> set xss"
  then obtain as bs where "xss = as @ x # bs" by (auto dest: split_list)
  then have "concat xss = concat as @ x @ concat bs" by simp
  then show ?thesis by (metis sublist_appendI)
qed

lemma getLicense_parts:
  "getLicense env now t mods =
     concat [''/*!'' @ newline @ '' * '', ''Angular Material Design'',
             newline @ '' * '', ''https://github.com/angular/material'',
             newline @ '' * '', ''@license MIT'',
             newline @ '' * '', ''v'' @ o_version t,
             newline @ '' * '', ''Built with: material-tools'',
             newline @ '' * '', ''Includes modules: '' @ join '', '' mods,
             newline @ '' * '' @ newline @ '' * '',
             ''Copyright '' @ showNat (getFullYear env now),
             '' Google Inc. All Rights Reserved.'' @ newline @ '' * ''
               @ ''Use of this source code is governed by an MIT-style license that can be ''
               @ ''found in the LICENSE file at http://material.angularjs.org/LICENSE.''
               @ newline @ '' */'' @ newline @ newline]"
  by (simp add: getLicense_def)

lemma getLicense_contains:
  "sublist ''Angular Material Design'' (getLicense env now t mods)"
  "sublist ''https://github.com/angular/material'' (getLicense env now t mods)"
  "sublist ''@license MIT'' (getLicense env now t mods)"
  "sublist (''v'' @ o_version t) (getLicense env now t mods)"
  "sublist ''Built with: material-tools'' (getLicense env now t mods)"
  "sublist (''Includes modules: '' @ join '', '' mods) (getLicense env now t mods)"
  "sublist (''Copyright '' @ showNat (getFullYear env now)) (getLicense env now t mods)"
  by (subst getLicense_parts, rule sublist_concat_member, simp)+

text \<open>
  Claim C9. Without options, and with options that have no destination (absent or
  empty, given directly or loaded from a file), the constructor throws its
  configuration error; a run that starts with such a constructor does nothing at
  all, so no resolver is called.
\<close>

theorem constructor_rejects:
  "constructor env Missing = Inl (Error ''No options have been specified.'')
   \<and> snd (newThenBuild env now Missing) = []
   \<and> (destination opts = None \<or> destination opts = Some [] \<longrightarrow>
        constructor env (Given opts) = Inl (Error ''You have to specify a destination.'')
        \<and> snd (newThenBuild env now (Given opts)) = [])
   \<and> (f \<noteq> [] \<and> requireOptions env (path_resolve env [f]) = Inr opts
        \<and> (destination opts = None \<or> destination opts = Some []) \<longrightarrow>
        constructor env (ConfigFile f) = Inl (Error ''You have to specify a destination.'')
        \<and> snd (newThenBuild env now (ConfigFile f)) = [])"
  by (auto simp: constructor_def newThenBuild_def)

theorem constructor_rejects_witness:
  "destination fixtureOptions = None
   \<and> constructor fixtureEnv (Given fixtureOptions)
       = Inl (Error ''You have to specify a destination.'')
   \<and> snd (newThenBuild fixtureEnv 0 (Given fixtureOptions)) = []
   \<and> requireOptions (fixtureEnv\<lparr>requireOptions := \<lambda>f. Inr fixtureOptions\<rparr>)
        (path_resolve (fixtureEnv\<lparr>requireOptions := \<lambda>f. Inr fixtureOptions\<rparr>) [''config.json''])
       = Inr fixtureOptions
   \<and> constructor (fixtureEnv\<lparr>requireOptions := \<lambda>f. Inr fixtureOptions\<rparr>) (ConfigFile ''config.json'')
       = Inl (Error ''You have to specify a destination.'')"
proof -
  have d: "destination fixtureOptions = None" by (simp add: fixtureOptions_def)
  show ?thesis
    using constructor_rejects [of fixtureEnv 0 fixtureOptions "''config.json''"]
      constructor_rejects [of "fixtureEnv\<lparr>requireOptions := \<lambda>f. Inr fixtureOptions\<rparr>" 0
        fixtureOptions "''config.json''"] d
    by simp
qed

text \<open>
  Claim C6. Whatever \<open>build\<close> writes, and however far it gets: the source map is
  written as the JS builder gave it, and every other file starts with the banner.
  The banner holds the product name, the repository, the license, the version (the
  one the package resolver answered), the tool, the module ids and the copyright
  line with the current year. The \<open>LICENSE\<close> file is not among the writes: it is
  copied.
\<close>

theorem build_banner:
  assumes "build env now t0 = (r, t, tr)" and "(p, c) \<in> set (written tr)"
  shows "\<exists>bd. fst (getData env t0) = Inr bd \<and>
           (let base = path_join env [o_destination t, o_destinationFilename t];
                license = getLicense env now t (flat (dependencies bd)) in
            (if p = base @ ''.min.js.map''
             then \<exists>jsOut. JSBuilder_build env bd (base @ ''.min.js'') = Inr jsOut
                    \<and> c = sourceMap jsOut
             else prefix license c)
            \<and> sublist ''Angular Material Design'' license
            \<and> sublist ''https://github.com/angular/material'' license
            \<and> sublist ''@license MIT'' license
            \<and> sublist (''v'' @ o_version t) license
            \<and> sublist ''Built with: material-tools'' license
            \<and> sublist (''Includes modules: '' @ join '', '' (flat (dependencies bd))) license
            \<and> sublist (''Copyright '' @ showNat (getFullYear env now)) license)
         \<and> (\<forall>vd. PackageResolver_resolve env (o_version t0) (o_cache t0) = Inr vd
               \<longrightarrow> o_version t = vd_version vd)"
proof -
  obtain r0 t1 tr0 where g: "getData env t0 = (r0, t1, tr0)"
    by (cases "getData env t0") auto
  note f = getData_facts [OF g]
  have t: "t = t1"
    using assms(1) g
    by (auto simp: build_def Let_def split: sum.splits option.splits)
  have "\<exists>bd. r0 = Inr bd \<and>
           (if p = path_join env [o_destination t, o_destinationFilename t] @ ''.min.js.map''
             then \<exists>jsOut. JSBuilder_build env bd
                     (path_join env [o_destination t, o_destinationFilename t] @ ''.min.js'')
                       = Inr jsOut \<and> c = sourceMap jsOut
             else prefix (getLicense env now t (flat (dependencies bd))) c)"
    using assms g f(1)
    by (auto simp: build_def Let_def writeFile_def written_append
        split: sum.splits option.splits)
  then obtain bd where bd: "r0 = Inr bd"
    and main: "if p = path_join env [o_destination t, o_destinationFilename t] @ ''.min.js.map''
             then \<exists>jsOut. JSBuilder_build env bd
                     (path_join env [o_destination t, o_destinationFilename t] @ ''.min.js'')
                       = Inr jsOut \<and> c = sourceMap jsOut
             else prefix (getLicense env now t (flat (dependencies bd))) c"
    by blast
  have res: "fst (getData env t0) = Inr bd"
    using g bd by simp
  have ver: "\<forall>vd. PackageResolver_resolve env (o_version t0) (o_cache t0) = Inr vd
               \<longrightarrow> o_version t = vd_version vd"
    using f(7) t by blast
  show ?thesis
    unfolding Let_def
    using res main ver getLicense_contains [where env = env and now = now and t = t
        and mods = "flat (dependencies bd)"]
    by blast
qed

theorem build_banner_witness:
  "(''/out/angular-material.css'',
      getLicense fixtureEnv 0 (fixtureTools ''1.0.5'' None) [''core'', ''tooltip''] @ ''CSS'')
     \<in> set (written (snd (snd (build fixtureEnv 0 (fixtureTools ''1.0.5'' None)))))
   \<and> (\<exists>bd. fst (getData fixtureEnv (fixtureTools ''1.0.5'' None)) = Inr bd
         \<and> prefix (getLicense fixtureEnv 0 (fst (snd (build fixtureEnv 0 (fixtureTools ''1.0.5'' None))))
                     (flat (dependencies bd)))
             (getLicense fixtureEnv 0 (fixtureTools ''1.0.5'' None) [''core'', ''tooltip''] @ ''CSS''))"
proof -
  let ?T = "fixtureTools ''1.0.5'' None"
  let ?b = "build fixtureEnv 0 ?T"
  have h1: "?b = (fst ?b, fst (snd ?b), snd (snd ?b))" by simp
  have h2: "(''/out/angular-material.css'',
      getLicense fixtureEnv 0 ?T [''core'', ''tooltip''] @ ''CSS'')
     \<in> set (written (snd (snd ?b)))"
    by code_simp
  have base: "path_join fixtureEnv
      [o_destination (fst (snd ?b)), o_destinationFilename (fst (snd ?b))] = ''/out/angular-material''"
    by code_simp
  show ?thesis
    using build_banner [OF h1 h2] h2 base by (auto simp: Let_def)
qed










end
